theory Spec2Isabelle
  imports Main
begin

section \<open>Python strings\<close>

text \<open>
  A Python \<open>str\<close> is modelled as a \<open>string\<close>, one \<open>char\<close> for each code point in
  the range U+0000 to U+00FF, so that \<open>length\<close> counts what Python's \<open>len\<close> counts.
  The operations below are the ones the sources use: truthiness, \<open>in\<close>, \<open>strip\<close>,
  \<open>lstrip(chars)\<close>, \<open>split('\n')\<close>, \<open>upper\<close>, \<open>"\n".join\<close>, \<open>str(int)\<close>,
  \<open>re.search(r'(\d+)', s)\<close> and \<open>int\<close> of a digit string.
\<close>

definition truthy :: "string option \<Rightarrow> bool" where
  \<comment> \<open>\<open>if x:\<close> for an \<open>Optional[str]\<close>: neither \<open>None\<close> nor the empty string.\<close>
  "truthy x = (case x of None \<Rightarrow> False | Some v \<Rightarrow> v \<noteq> [])"

fun starts_with :: "string \<Rightarrow> string \<Rightarrow> bool" where
  "starts_with [] s = True"
| "starts_with (p # ps) [] = False"
| "starts_with (p # ps) (c # cs) = (p = c \<and> starts_with ps cs)"

fun contains :: "string \<Rightarrow> string \<Rightarrow> bool" where
  \<comment> \<open>\<open>needle in s\<close>\<close>
  "contains needle [] = (needle = [])"
| "contains needle (c # cs) = (starts_with needle (c # cs) \<or> contains needle cs)"

definition is_space :: "char \<Rightarrow> bool" where
  \<comment> \<open>the code points below U+0100 that \<open>str.strip()\<close> removes\<close>
  "is_space c = (c \<in> set [CHR 0x09, CHR 0x0A, CHR 0x0B, CHR 0x0C, CHR 0x0D,
      CHR 0x1C, CHR 0x1D, CHR 0x1E, CHR 0x1F, CHR 0x20, CHR 0x85, CHR 0xA0])"

definition lstrip_chars :: "string \<Rightarrow> string \<Rightarrow> string" where
  \<comment> \<open>\<open>s.lstrip(chars)\<close>\<close>
  "lstrip_chars chars s = dropWhile (\<lambda>c. c \<in> set chars) s"

definition strip :: "string \<Rightarrow> string" where
  \<comment> \<open>\<open>s.strip()\<close>\<close>
  "strip s = rev (dropWhile is_space (rev (dropWhile is_space s)))"

fun split_lines :: "string \<Rightarrow> string list" where
  \<comment> \<open>\<open>s.split('\n')\<close>: always at least one piece\<close>
  "split_lines [] = [[]]"
| "split_lines (c # cs) =
     (if c = CHR 0x0A then [] # split_lines cs
      else (case split_lines cs of [] \<Rightarrow> [[c]] | l # ls \<Rightarrow> (c # l) # ls))"

definition lower_letters :: string where
  "lower_letters = ''abcdefghijklmnopqrstuvwxyz'' @
     [CHR 0xE0, CHR 0xE1, CHR 0xE2, CHR 0xE3, CHR 0xE4, CHR 0xE5, CHR 0xE6, CHR 0xE7,
      CHR 0xE8, CHR 0xE9, CHR 0xEA, CHR 0xEB, CHR 0xEC, CHR 0xED, CHR 0xEE, CHR 0xEF,
      CHR 0xF0, CHR 0xF1, CHR 0xF2, CHR 0xF3, CHR 0xF4, CHR 0xF5, CHR 0xF6,
      CHR 0xF8, CHR 0xF9, CHR 0xFA, CHR 0xFB, CHR 0xFC, CHR 0xFD, CHR 0xFE]"

definition upper_letters :: string where
  "upper_letters = ''ABCDEFGHIJKLMNOPQRSTUVWXYZ'' @
     [CHR 0xC0, CHR 0xC1, CHR 0xC2, CHR 0xC3, CHR 0xC4, CHR 0xC5, CHR 0xC6, CHR 0xC7,
      CHR 0xC8, CHR 0xC9, CHR 0xCA, CHR 0xCB, CHR 0xCC, CHR 0xCD, CHR 0xCE, CHR 0xCF,
      CHR 0xD0, CHR 0xD1, CHR 0xD2, CHR 0xD3, CHR 0xD4, CHR 0xD5, CHR 0xD6,
      CHR 0xD8, CHR 0xD9, CHR 0xDA, CHR 0xDB, CHR 0xDC, CHR 0xDD, CHR 0xDE]"

definition upper_char :: "char \<Rightarrow> string" where
  \<comment> \<open>The sharp s becomes two letters. The capitals of U+00B5 and U+00FF lie above
      U+00FF; the two are left as they are, which cannot be told apart by a search for
      an ASCII needle, the only use \<open>upper\<close> has in the sources.\<close>
  "upper_char c =
     (if c = CHR 0xDF then ''SS''
      else (case map_of (zip lower_letters upper_letters) c of
              Some u \<Rightarrow> [u]
            | None \<Rightarrow> [c]))"

definition upper :: "string \<Rightarrow> string" where
  \<comment> \<open>\<open>s.upper()\<close>\<close>
  "upper s = concat (map upper_char s)"

fun join :: "string \<Rightarrow> string list \<Rightarrow> string" where
  \<comment> \<open>\<open>sep.join(parts)\<close>\<close>
  "join sep [] = []"
| "join sep [x] = x"
| "join sep (x # y # ys) = x @ sep @ join sep (y # ys)"

definition is_digit :: "char \<Rightarrow> bool" where
  \<comment> \<open>\<open>\d\<close>: below U+0100 the decimal digits are the ASCII ones\<close>
  "is_digit c = (c \<in> set ''0123456789'')"

definition digit_val :: "char \<Rightarrow> int" where
  "digit_val c = (case map_of (zip ''0123456789'' [0, 1, 2, 3, 4, 5, 6, 7, 8, 9]) c of
                    Some d \<Rightarrow> d
                  | None \<Rightarrow> 0)"

definition int_of_digits :: "string \<Rightarrow> int" where
  \<comment> \<open>\<open>int(ds)\<close> for a non-empty string of decimal digits; Python's integers are
      unbounded, and the conversion of such a string is taken not to fail\<close>
  "int_of_digits ds = foldl (\<lambda>acc c. 10 * acc + digit_val c) 0 ds"

definition re_search_digits :: "string \<Rightarrow> string option" where
  \<comment> \<open>\<open>re.search(r'(\d+)', s)\<close>: group 1 of the leftmost, longest run of digits,
      \<open>None\<close> when \<open>s\<close> has no digit\<close>
  "re_search_digits s =
     (case takeWhile is_digit (dropWhile (\<lambda>c. \<not> is_digit c) s) of
        [] \<Rightarrow> None
      | d # ds \<Rightarrow> Some (d # ds))"

definition digit_of :: "nat \<Rightarrow> char" where
  "digit_of d = ''0123456789'' ! d"

fun str_nat :: "nat \<Rightarrow> string" where
  \<comment> \<open>\<open>str(n)\<close> for \<open>n \<ge> 0\<close>\<close>
  "str_nat n = (if n < 10 then [digit_of n] else str_nat (n div 10) @ [digit_of (n mod 10)])"

declare str_nat.simps [simp del]

section \<open>Evaluation parsing (src/agents/evaluation\_agent.py)\<close>

record evaluation =
  score :: int
  strengths :: "string list"
  weaknesses :: "string list"
  suggestions :: "string list"
  overall_feedback :: string

datatype eval_section = Strengths | Weaknesses | Suggestions | Overall_feedback

definition default_evaluation :: evaluation where
  "default_evaluation =
     \<lparr>score = 0, strengths = [], weaknesses = [], suggestions = [], overall_feedback = []\<rparr>"

definition bullet_chars :: string where
  \<comment> \<open>the argument of \<open>lstrip\<close> as the source file has it; its code point U+20AC is
      above the range of the model and occurs in no string\<close>
  "bullet_chars = [CHR 0xE2, CHR 0xA2, CHR ''-'', CHR ''*'']"

definition add_content :: "evaluation \<Rightarrow> eval_section \<Rightarrow> string \<Rightarrow> evaluation" where
  "add_content ev sec cleaned_line =
     (case sec of
        Overall_feedback \<Rightarrow>
          ev\<lparr>overall_feedback := overall_feedback ev @ cleaned_line @ '' ''\<rparr>
      | Strengths \<Rightarrow> ev\<lparr>strengths := strengths ev @ [cleaned_line]\<rparr>
      | Weaknesses \<Rightarrow> ev\<lparr>weaknesses := weaknesses ev @ [cleaned_line]\<rparr>
      | Suggestions \<Rightarrow> ev\<lparr>suggestions := suggestions ev @ [cleaned_line]\<rparr>)"

definition parse_line ::
  "evaluation \<times> eval_section option \<Rightarrow> string \<Rightarrow> evaluation \<times> eval_section option" where
  \<comment> \<open>one turn of the loop over the lines; the pair is the dictionary being filled
      and \<open>current_section\<close>\<close>
  "parse_line st raw =
     (let ev = fst st; current_section = snd st; line = strip raw; u = upper line in
      if contains ''SCORE:'' u \<or> contains ''OVERALL SCORE:'' u then
        (case re_search_digits line of
           None \<Rightarrow> (ev, current_section)
         | Some ds \<Rightarrow> (ev\<lparr>score := min 100 (max 0 (int_of_digits ds))\<rparr>, current_section))
      else if contains ''STRENGTHS:'' u then (ev, Some Strengths)
      else if contains ''WEAKNESSES:'' u \<or> contains ''AREAS FOR IMPROVEMENT:'' u then
        (ev, Some Weaknesses)
      else if contains ''SUGGESTIONS:'' u \<or> contains ''RECOMMENDATIONS:'' u then
        (ev, Some Suggestions)
      else if contains ''OVERALL FEEDBACK:'' u \<or> contains ''SUMMARY:'' u then
        (ev, Some Overall_feedback)
      else if line \<noteq> [] then
        (case current_section of
           None \<Rightarrow> (ev, current_section)
         | Some sec \<Rightarrow>
             (let cleaned_line = strip (lstrip_chars bullet_chars line) in
              if cleaned_line \<noteq> [] then (add_content ev sec cleaned_line, current_section)
              else (ev, current_section)))
      else (ev, current_section))"

definition parse_lines :: "string \<Rightarrow> evaluation \<times> eval_section option" where
  "parse_lines evaluation_text =
     foldl parse_line (default_evaluation, None) (split_lines (strip evaluation_text))"

definition parse_evaluation :: "string \<Rightarrow> evaluation" where
  \<comment> \<open>\<open>EvaluationAgent._parse_evaluation\<close>\<close>
  "parse_evaluation evaluation_text =
     (let ev = fst (parse_lines evaluation_text) in
      if strengths ev = [] \<and> weaknesses ev = [] then ev\<lparr>overall_feedback := evaluation_text\<rparr>
      else ev)"

section \<open>Interview state (src/graph/state.py)\<close>

datatype agent = Technical | HR | Manager | Complete | Evaluation

datatype role = Agent | User

text \<open>
  \<open>Message\<close> and \<open>QuestionAnswer\<close> are pydantic models: building one validates its
  fields. Every \<open>Message\<close> of the workflow is built from literals that pass, so the
  record is written down directly; a \<open>QuestionAnswer\<close> takes its \<open>agent_type\<close> from
  the state, and is refused when that is none of the three rounds.
\<close>

record message =
  role :: role
  content :: string
  agent_type :: "agent option"

record question_answer =
  question :: string
  answer :: "string option"
  qa_agent_type :: agent

record interview_state =
  candidate_name :: string
  job_role :: string
  experience_level :: string
  resume_text :: "string option"
  current_agent :: agent
  technical_questions_asked :: int
  hr_questions_asked :: int
  manager_questions_asked :: int
  conversation_history :: "message list"
  qa_pairs :: "question_answer list"
  is_complete :: bool
  current_question :: "string option"
  last_answer :: "string option"
  evaluation :: "evaluation option"

definition create_initial_state ::
  "string \<Rightarrow> string \<Rightarrow> string \<Rightarrow> string option \<Rightarrow> interview_state" where
  "create_initial_state name job level resume =
     \<lparr>candidate_name = name, job_role = job, experience_level = level,
      resume_text = resume, current_agent = Technical,
      technical_questions_asked = 0, hr_questions_asked = 0, manager_questions_asked = 0,
      conversation_history = [], qa_pairs = [], is_complete = False,
      current_question = None, last_answer = None, evaluation = None\<rparr>"

datatype error = GenerationFailure | GraphRecursionError | ValidationError | KeyError

definition QuestionAnswer :: "string \<Rightarrow> string option \<Rightarrow> agent \<Rightarrow> error + question_answer" where
  "QuestionAnswer q a t =
     (if t = Technical \<or> t = HR \<or> t = Manager
      then Inr \<lparr>question = q, answer = a, qa_agent_type = t\<rparr>
      else Inl ValidationError)"

section \<open>Configuration and collaborators\<close>

text \<open>
  The three maxima of config/settings.py are read from the process environment, any
  integers. The hosted model is a function from the prompts sent so far and the
  prompt sent now to the reply, \<open>None\<close> when the call raises. The texts of the
  prompt templates do not matter to the workflow: \<open>format_template\<close> stands for
  \<open>prompts[agent_type][...].format(...)\<close> and \<open>format_evaluation\<close> for
  \<open>EVALUATION_AGENT_SYSTEM_PROMPT.format(...)\<close>. \<open>recursion_limit\<close> is the number of
  nodes that the graph library runs in one \<open>invoke\<close> before it raises.
\<close>

record env =
  MAX_TECHNICAL_QUESTIONS :: int
  MAX_HR_QUESTIONS :: int
  MAX_MANAGER_QUESTIONS :: int
  llm_invoke :: "string list \<Rightarrow> string \<Rightarrow> string option"
  format_template :: "agent \<Rightarrow> bool \<Rightarrow> string \<Rightarrow> string \<Rightarrow> string \<Rightarrow> int \<Rightarrow> string \<Rightarrow> string"
  format_evaluation :: "string \<Rightarrow> string \<Rightarrow> string \<Rightarrow> string \<Rightarrow> string"
  recursion_limit :: nat

section \<open>Prompts (src/prompts/templates.py)\<close>

definition resume_header :: string where
  "resume_header = ''\<newline>\<newline>CANDIDATE'' @ [CHR 0x27] @ ''S RESUME:\<newline>''"

definition resume_marker :: string where
  "resume_marker = ''...(resume continues)''"

definition resume_footer :: string where
  "resume_footer = ''\<newline>\<newline>Use this resume information to ask more personalized and relevant questions based on the candidate'' @ [CHR 0x27] @ ''s actual experience and skills.''"

definition resume_context :: "string option \<Rightarrow> string" where
  "resume_context resume =
     (if truthy resume then
        (case resume of
           None \<Rightarrow> []
         | Some r \<Rightarrow>
             (let truncated_resume = take 2000 r in
              resume_header @ truncated_resume @ ''\<newline>'' @
              (if length r > 2000 then resume_marker else []) @ resume_footer))
      else [])"

definition get_agent_prompt ::
  "env \<Rightarrow> agent \<Rightarrow> string \<Rightarrow> string \<Rightarrow> string \<Rightarrow> int \<Rightarrow> string \<Rightarrow> bool \<Rightarrow> string option
     \<Rightarrow> error + string" where
  "get_agent_prompt e a name job level question_number history is_first_question resume =
     (if a = Technical \<or> a = HR \<or> a = Manager then
        Inr (format_template e a is_first_question name job level question_number history
             @ resume_context resume)
      else Inl KeyError)"

section \<open>Persona agents (src/agents)\<close>

definition build_conversation_history :: "message list \<Rightarrow> string" where
  "build_conversation_history messages =
     (if messages = [] then ''No previous conversation.''
      else join ''\<newline>''
             (map (\<lambda>msg. (if role msg = Agent then ''Interviewer'' else ''Candidate'')
                          @ '': '' @ content msg)
                  (drop (length messages - 5) messages)))"

definition generate_question ::
  "env \<Rightarrow> string list \<Rightarrow> string \<Rightarrow> error + (string \<times> string list)" where
  \<comment> \<open>\<open>BaseAgent.generate_question\<close>: one call of the model; the second component is
      the list of prompts sent so far\<close>
  "generate_question e calls prompt =
     (case llm_invoke e calls prompt of
        None \<Rightarrow> Inl GenerationFailure
      | Some reply \<Rightarrow> Inr (reply, calls @ [prompt]))"

definition ask_question ::
  "env \<Rightarrow> agent \<Rightarrow> int \<Rightarrow> string list \<Rightarrow> interview_state \<Rightarrow> error + (string \<times> string list)" where
  \<comment> \<open>\<open>HRAgent.ask_question\<close>, with the agent's tag and its counter as arguments\<close>
  "ask_question e a asked calls s =
     (let question_number = asked + 1;
          is_first = (question_number = 1);
          history = build_conversation_history (conversation_history s)
      in case get_agent_prompt e a (candidate_name s) (job_role s) (experience_level s)
                question_number history is_first (resume_text s) of
           Inl err \<Rightarrow> Inl err
         | Inr prompt \<Rightarrow> generate_question e calls prompt)"

definition hr_ask_question ::
  "env \<Rightarrow> string list \<Rightarrow> interview_state \<Rightarrow> error + (string \<times> string list)" where
  "hr_ask_question e calls s = ask_question e HR (hr_questions_asked s) calls s"

definition technical_ask_question ::
  "env \<Rightarrow> string list \<Rightarrow> interview_state \<Rightarrow> error + (string \<times> string list)" where
  \<comment> \<open>Modelled from the spec: the file of \<open>TechnicalAgent\<close> is not among the sources.
      The spec gives the three persona agents one shape and different configuration,
      so this is \<open>HRAgent.ask_question\<close> with the technical tag and counter.\<close>
  "technical_ask_question e calls s =
     ask_question e Technical (technical_questions_asked s) calls s"

definition manager_ask_question ::
  "env \<Rightarrow> string list \<Rightarrow> interview_state \<Rightarrow> error + (string \<times> string list)" where
  \<comment> \<open>Modelled from the spec: the file of \<open>ManagerAgent\<close> is not among the sources;
      as for \<open>technical_ask_question\<close>.\<close>
  "manager_ask_question e calls s =
     ask_question e Manager (manager_questions_asked s) calls s"

section \<open>Evaluation agent (src/agents/evaluation\_agent.py)\<close>

definition round_summary :: "string \<Rightarrow> question_answer list \<Rightarrow> string list" where
  "round_summary title qas =
     (if qas = [] then []
      else title #
           concat (map (\<lambda>(i, qa).
                     [''\<newline>Q'' @ str_nat i @ '': '' @ question qa,
                      ''A'' @ str_nat i @ '': '' @
                        (case answer qa of
                           None \<Rightarrow> ''No answer provided''
                         | Some a \<Rightarrow> if a = [] then ''No answer provided'' else a)
                        @ ''\<newline>''])
                   (enumerate 1 qas)))"

definition build_interview_summary :: "interview_state \<Rightarrow> string" where
  "build_interview_summary s =
     (if qa_pairs s = [] then ''No interview data available.''
      else join ''\<newline>''
        (round_summary ''=== TECHNICAL ROUND ==='' [qa \<leftarrow> qa_pairs s. qa_agent_type qa = Technical]
         @ round_summary ''\<newline>=== HR ROUND ==='' [qa \<leftarrow> qa_pairs s. qa_agent_type qa = HR]
         @ round_summary ''\<newline>=== MANAGERIAL ROUND ===''
             [qa \<leftarrow> qa_pairs s. qa_agent_type qa = Manager]))"

definition evaluation_prompt :: "env \<Rightarrow> interview_state \<Rightarrow> string" where
  "evaluation_prompt e s =
     format_evaluation e (candidate_name s) (job_role s) (experience_level s)
       (build_interview_summary s)"

definition generate_evaluation ::
  "env \<Rightarrow> string list \<Rightarrow> interview_state \<Rightarrow> error + (evaluation \<times> string list)" where
  "generate_evaluation e calls s =
     (let prompt = evaluation_prompt e s
      in case llm_invoke e calls prompt of
           None \<Rightarrow> Inl GenerationFailure
         | Some evaluation_text \<Rightarrow> Inr (parse_evaluation evaluation_text, calls @ [prompt]))"

section \<open>Workflow (src/graph/workflow.py)\<close>

text \<open>
  A workflow state is the list of prompts sent to the model so far together with the
  interview state. Each node takes and returns such a pair, or raises.
\<close>

type_synonym world = "string list \<times> interview_state"

definition agent_message :: "string \<Rightarrow> agent \<Rightarrow> message" where
  "agent_message q a = \<lparr>role = Agent, content = q, agent_type = Some a\<rparr>"

definition technical_node :: "env \<Rightarrow> world \<Rightarrow> error + world" where
  "technical_node e w =
     (case technical_ask_question e (fst w) (snd w) of
        Inl err \<Rightarrow> Inl err
      | Inr (q, calls) \<Rightarrow>
          Inr (calls, (snd w)\<lparr>current_question := Some q,
                 conversation_history := conversation_history (snd w) @ [agent_message q Technical]\<rparr>))"

definition hr_node :: "env \<Rightarrow> world \<Rightarrow> error + world" where
  "hr_node e w =
     (case hr_ask_question e (fst w) (snd w) of
        Inl err \<Rightarrow> Inl err
      | Inr (q, calls) \<Rightarrow>
          Inr (calls, (snd w)\<lparr>current_question := Some q, current_agent := HR,
                 conversation_history := conversation_history (snd w) @ [agent_message q HR]\<rparr>))"

definition manager_node :: "env \<Rightarrow> world \<Rightarrow> error + world" where
  "manager_node e w =
     (case manager_ask_question e (fst w) (snd w) of
        Inl err \<Rightarrow> Inl err
      | Inr (q, calls) \<Rightarrow>
          Inr (calls, (snd w)\<lparr>current_question := Some q, current_agent := Manager,
                 conversation_history := conversation_history (snd w) @ [agent_message q Manager]\<rparr>))"

definition evaluation_node :: "env \<Rightarrow> world \<Rightarrow> error + world" where
  "evaluation_node e w =
     (case generate_evaluation e (fst w) (snd w) of
        Inl err \<Rightarrow> Inl err
      | Inr (ev, calls) \<Rightarrow>
          Inr (calls, (snd w)\<lparr>evaluation := Some ev, is_complete := True,
                 current_agent := Evaluation\<rparr>))"

datatype route = To_hr | To_manager | To_evaluation | Continue | End

definition route_from_technical :: "env \<Rightarrow> interview_state \<Rightarrow> route" where
  "route_from_technical e s =
     (if technical_questions_asked s \<ge> MAX_TECHNICAL_QUESTIONS e then To_hr
      else if truthy (current_question s) then End
      else Continue)"

definition route_from_hr :: "env \<Rightarrow> interview_state \<Rightarrow> route" where
  "route_from_hr e s =
     (if hr_questions_asked s \<ge> MAX_HR_QUESTIONS e then To_manager
      else if truthy (current_question s) then End
      else Continue)"

definition route_from_manager :: "env \<Rightarrow> interview_state \<Rightarrow> route" where
  "route_from_manager e s =
     (if manager_questions_asked s \<ge> MAX_MANAGER_QUESTIONS e then To_evaluation
      else if truthy (current_question s) then End
      else Continue)"

text \<open>
  The graph of \<open>_create_graph\<close>: four nodes, entry point \<open>technical\<close>, the three
  conditional edges with their tables, and the edge from \<open>evaluation\<close> to the end.
\<close>

datatype node = Technical_node | Hr_node | Manager_node | Evaluation_node

definition run_node :: "env \<Rightarrow> node \<Rightarrow> world \<Rightarrow> error + world" where
  "run_node e n w =
     (case n of
        Technical_node \<Rightarrow> technical_node e w
      | Hr_node \<Rightarrow> hr_node e w
      | Manager_node \<Rightarrow> manager_node e w
      | Evaluation_node \<Rightarrow> evaluation_node e w)"

definition next_node :: "env \<Rightarrow> node \<Rightarrow> interview_state \<Rightarrow> node option" where
  \<comment> \<open>\<open>None\<close> is the end of the graph\<close>
  "next_node e n s =
     (case n of
        Technical_node \<Rightarrow>
          (case route_from_technical e s of
             To_hr \<Rightarrow> Some Hr_node | Continue \<Rightarrow> Some Technical_node | _ \<Rightarrow> None)
      | Hr_node \<Rightarrow>
          (case route_from_hr e s of
             To_manager \<Rightarrow> Some Manager_node | Continue \<Rightarrow> Some Hr_node | _ \<Rightarrow> None)
      | Manager_node \<Rightarrow>
          (case route_from_manager e s of
             To_evaluation \<Rightarrow> Some Evaluation_node | Continue \<Rightarrow> Some Manager_node | _ \<Rightarrow> None)
      | Evaluation_node \<Rightarrow> None)"

fun graph_invoke :: "env \<Rightarrow> nat \<Rightarrow> node \<Rightarrow> world \<Rightarrow> error + world" where
  \<comment> \<open>runs the graph from a node; the number is how many nodes may still run\<close>
  "graph_invoke e 0 n w = Inl GraphRecursionError"
| "graph_invoke e (Suc k) n w =
     (case run_node e n w of
        Inl err \<Rightarrow> Inl err
      | Inr w' \<Rightarrow>
          (case next_node e n (snd w') of
             None \<Rightarrow> Inr w'
           | Some n' \<Rightarrow> graph_invoke e k n' w'))"

definition run_step :: "env \<Rightarrow> world \<Rightarrow> error + world" where
  "run_step e w = graph_invoke e (recursion_limit e) Technical_node w"

definition user_message :: "string \<Rightarrow> message" where
  "user_message a = \<lparr>role = User, content = a, agent_type = None\<rparr>"

definition increment_counter :: "interview_state \<Rightarrow> interview_state" where
  "increment_counter s =
     (if current_agent s = Technical then
        s\<lparr>technical_questions_asked := technical_questions_asked s + 1\<rparr>
      else if current_agent s = HR then s\<lparr>hr_questions_asked := hr_questions_asked s + 1\<rparr>
      else if current_agent s = Manager then
        s\<lparr>manager_questions_asked := manager_questions_asked s + 1\<rparr>
      else s)"

definition process_answer :: "interview_state \<Rightarrow> string \<Rightarrow> error + interview_state" where
  "process_answer s a =
     (let s1 = s\<lparr>conversation_history := conversation_history s @ [user_message a]\<rparr> in
      case (if truthy (current_question s1) then
              (case current_question s1 of
                 None \<Rightarrow> Inr s1
               | Some q \<Rightarrow>
                   (case QuestionAnswer q (Some a) (current_agent s1) of
                      Inl err \<Rightarrow> Inl err
                    | Inr qa_pair \<Rightarrow>
                        Inr (increment_counter (s1\<lparr>qa_pairs := qa_pairs s1 @ [qa_pair]\<rparr>))))
            else Inr s1) of
        Inl err \<Rightarrow> Inl err
      | Inr s2 \<Rightarrow> Inr (s2\<lparr>current_question := None, last_answer := Some a\<rparr>))"


section \<open>Runs of the workflow\<close>

text \<open>
  The states a caller can hold: the initial state with no prompt sent, and the result
  of every \<open>run_step\<close> and of every \<open>process_answer\<close> that returns. An answer is given
  only while \<open>current_question\<close> is not \<open>None\<close>.
\<close>

inductive reachable :: "env \<Rightarrow> world \<Rightarrow> bool" for e :: env where
  initial: "reachable e ([], create_initial_state name job level resume)"
| step: "reachable e w \<Longrightarrow> run_step e w = Inr w' \<Longrightarrow> reachable e w'"
| answer: "reachable e (calls, s) \<Longrightarrow> current_question s \<noteq> None \<Longrightarrow>
     process_answer s a = Inr s' \<Longrightarrow> reachable e (calls, s')"

text \<open>
  Relations between the state before and after a run of the graph: what the nodes
  leave alone, what they only extend, and what a round that asks has done.
\<close>

definition same_answers :: "world \<Rightarrow> world \<Rightarrow> bool" where
  "same_answers w w' =
     (qa_pairs (snd w') = qa_pairs (snd w) \<and>
      technical_questions_asked (snd w') = technical_questions_asked (snd w) \<and>
      hr_questions_asked (snd w') = hr_questions_asked (snd w) \<and>
      manager_questions_asked (snd w') = manager_questions_asked (snd w) \<and>
      candidate_name (snd w') = candidate_name (snd w) \<and>
      job_role (snd w') = job_role (snd w) \<and>
      experience_level (snd w') = experience_level (snd w))"


definition asked :: "agent \<Rightarrow> world \<Rightarrow> world \<Rightarrow> bool" where
  \<comment> \<open>from \<open>w\<close> to \<open>w'\<close> only entries of the agent with tag \<open>a\<close> were added to the
      transcript, at least one and one for each prompt sent, and a question is pending\<close>
  "asked a w w' =
     (truthy (current_question (snd w')) \<and>
      (\<exists>cs hs. length cs = length hs \<and> hs \<noteq> [] \<and> fst w' = fst w @ cs \<and>
         conversation_history (snd w') = conversation_history (snd w) @ hs \<and>
         list_all (\<lambda>m. role m = Agent \<and> agent_type m = Some a) hs))"


definition counted :: "interview_state \<Rightarrow> bool" where
  "counted s =
     (int (length (qa_pairs s)) =
        technical_questions_asked s + hr_questions_asked s + manager_questions_asked s)"



section \<open>A concrete interview\<close>

text \<open>
  For the examples: a model that replies to the evaluation prompt with a short
  evaluation and to any other prompt with the question \<open>Qn?\<close>, where \<open>n\<close> counts
  the prompts sent up to and including this one; templates that ignore their
  arguments; and the graph library's default limit.
\<close>

definition demo_env :: "int \<Rightarrow> int \<Rightarrow> int \<Rightarrow> env" where
  "demo_env mt mh mm =
     \<lparr>MAX_TECHNICAL_QUESTIONS = mt, MAX_HR_QUESTIONS = mh, MAX_MANAGER_QUESTIONS = mm,
      llm_invoke = (\<lambda>calls prompt.
         Some (if prompt = ''evaluate'' then ''SCORE: 85\<newline>STRENGTHS:\<newline>- clear answers''
               else ''Q'' @ str_nat (Suc (length calls)) @ ''?'')),
      format_template = (\<lambda>a is_first name job level n history. ''ask''),
      format_evaluation = (\<lambda>name job level summary. ''evaluate''),
      recursion_limit = 25\<rparr>"

definition demo_state :: interview_state where
  "demo_state = create_initial_state ''Ann'' ''Engineer'' ''Junior'' None"








definition demo_asked :: world where
  "demo_asked =
     ([''ask''],
      demo_state\<lparr>current_question := Some ''Q1?'',
        conversation_history := [agent_message ''Q1?'' Technical]\<rparr>)"

definition demo_answered :: world where
  "demo_answered =
     ([''ask''],
      demo_state\<lparr>technical_questions_asked := 1,
        conversation_history := [agent_message ''Q1?'' Technical, user_message ''x''],
        qa_pairs := [\<lparr>question = ''Q1?'', answer = Some ''x'', qa_agent_type = Technical\<rparr>],
        last_answer := Some ''x''\<rparr>)"





section \<open>Facts about the string operations\<close>

lemma starts_with_iff: "starts_with p s \<longleftrightarrow> (\<exists>post. s = p @ post)"
  by (induction p s rule: starts_with.induct) auto

lemma contains_iff: "contains n s \<longleftrightarrow> (\<exists>pre post. s = pre @ n @ post)"
proof (induction s)
  case Nil
  show ?case by auto
next
  case (Cons c cs)
  show ?case
  proof
    assume "contains n (c # cs)"
    then consider "starts_with n (c # cs)" | "contains n cs" by auto
    then show "\<exists>pre post. c # cs = pre @ n @ post"
    proof cases
      case 1
      then obtain post where "c # cs = n @ post" by (auto simp: starts_with_iff)
      then have "c # cs = [] @ n @ post" by simp
      then show ?thesis by blast
    next
      case 2
      with Cons.IH obtain pre post where "cs = pre @ n @ post" by auto
      then have "c # cs = (c # pre) @ n @ post" by simp
      then show ?thesis by blast
    qed
  next
    assume "\<exists>pre post. c # cs = pre @ n @ post"
    then obtain pre post where eq: "c # cs = pre @ n @ post" by blast
    show "contains n (c # cs)"
    proof (cases pre)
      case Nil
      with eq have "starts_with n (c # cs)" by (auto simp: starts_with_iff)
      then show ?thesis by simp
    next
      case (Cons p pre')
      with eq have "cs = pre' @ n @ post" by simp
      with Cons.IH have "contains n cs" by blast
      then show ?thesis by simp
    qed
  qed
qed

lemma contains_suffix_needle: "contains (a @ b) s \<Longrightarrow> contains b s"
proof -
  assume "contains (a @ b) s"
  then obtain pre post where "s = pre @ (a @ b) @ post" by (auto simp: contains_iff)
  then have "s = (pre @ a) @ b @ post" by simp
  then show ?thesis unfolding contains_iff by blast
qed

lemma overall_score_is_score: "contains ''OVERALL SCORE:'' u \<Longrightarrow> contains ''SCORE:'' u"
  using contains_suffix_needle [of "''OVERALL ''" "''SCORE:''" u] by simp




lemma score_add_content: "score (add_content ev sec l) = score ev"
  by (cases sec) (simp_all add: add_content_def)

lemma parse_line_score_cases:
  "score (fst (parse_line st raw)) = score (fst st) \<or>
   (\<exists>ds. re_search_digits (strip raw) = Some ds \<and> contains ''SCORE:'' (upper (strip raw)) \<and>
      score (fst (parse_line st raw)) = min 100 (max 0 (int_of_digits ds)))"
  by (auto simp: parse_line_def Let_def score_add_content overall_score_is_score split: option.splits)



lemma score_parse_evaluation: "score (parse_evaluation t) = score (fst (parse_lines t))"
  by (simp add: parse_evaluation_def Let_def)


lemma parse_line_keeps_score:
  "\<not> contains ''SCORE:'' (upper (strip raw)) \<or> re_search_digits (strip raw) = None \<Longrightarrow>
   score (fst (parse_line st raw)) = score (fst st)"
  using parse_line_score_cases [of st raw] by auto

lemma foldl_parse_line_keeps_score:
  "\<forall>l \<in> set ls. \<not> contains ''SCORE:'' (upper (strip l)) \<or> re_search_digits (strip l) = None \<Longrightarrow>
   score (fst (foldl parse_line st ls)) = score (fst st)"
  by (induction ls arbitrary: st) (simp_all add: parse_line_keeps_score)


lemma re_search_digits_None: "re_search_digits s = None \<longleftrightarrow> (\<forall>c \<in> set s. \<not> is_digit c)"
proof (cases "dropWhile (\<lambda>c. \<not> is_digit c) s")
  case Nil
  then have "\<forall>c \<in> set s. \<not> is_digit c" by (simp add: dropWhile_eq_Nil_conv)
  moreover have "re_search_digits s = None" unfolding re_search_digits_def Nil by simp
  ultimately show ?thesis by simp
next
  case (Cons x xs)
  then have "x \<in> set s" by (metis list.set_intros(1) set_dropWhileD)
  moreover from Cons have "is_digit x" using hd_dropWhile [of "\<lambda>c. \<not> is_digit c" s] by simp
  ultimately show ?thesis using Cons by (auto simp: re_search_digits_def)
qed


section \<open>The evaluation parser\<close>



lemma parse_evaluation_lists:
  "strengths (parse_evaluation t) = strengths (fst (parse_lines t))"
  "weaknesses (parse_evaluation t) = weaknesses (fst (parse_lines t))"
  by (simp_all add: parse_evaluation_def Let_def)

text \<open>
  Claim C7, as the code has it. The parser is a total function: no operation of it
  can raise on a string. When the parsed strengths and weaknesses are both empty,
  \<open>overall_feedback\<close> is the raw response, verbatim. The fallback leaves the score as
  the lines gave it: it is 0 when no line that contains \<open>SCORE:\<close> holds a digit.
\<close>

theorem parse_evaluation_fallback:
  "(strengths (parse_evaluation t) = [] \<and> weaknesses (parse_evaluation t) = []
      \<longrightarrow> overall_feedback (parse_evaluation t) = t) \<and>
   ((\<forall>l \<in> set (split_lines (strip t)).
        contains ''SCORE:'' (upper (strip l)) \<longrightarrow> (\<forall>c \<in> set (strip l). \<not> is_digit c))
      \<longrightarrow> score (parse_evaluation t) = 0)"
proof (intro conjI impI)
  assume "strengths (parse_evaluation t) = [] \<and> weaknesses (parse_evaluation t) = []"
  then show "overall_feedback (parse_evaluation t) = t"
    by (simp add: parse_evaluation_lists) (simp add: parse_evaluation_def Let_def)
next
  assume "\<forall>l \<in> set (split_lines (strip t)).
        contains ''SCORE:'' (upper (strip l)) \<longrightarrow> (\<forall>c \<in> set (strip l). \<not> is_digit c)"
  then have "\<forall>l \<in> set (split_lines (strip t)).
        \<not> contains ''SCORE:'' (upper (strip l)) \<or> re_search_digits (strip l) = None"
    by (auto simp: re_search_digits_None)
  then have "score (fst (parse_lines t)) = score (fst (default_evaluation, None :: eval_section option))"
    unfolding parse_lines_def by (rule foldl_parse_line_keeps_score)
  then show "score (parse_evaluation t) = 0"
    by (simp add: score_parse_evaluation default_evaluation_def)
qed

theorem parse_evaluation_fallback_witness:
  "strengths (parse_evaluation ''The candidate did well.\<newline>Score: n/a'') = [] \<and>
   weaknesses (parse_evaluation ''The candidate did well.\<newline>Score: n/a'') = [] \<and>
   list_all (\<lambda>l. contains ''SCORE:'' (upper (strip l)) = list_all (\<lambda>c. \<not> is_digit c) (strip l) \<or>
               \<not> contains ''SCORE:'' (upper (strip l)))
     (split_lines (strip ''The candidate did well.\<newline>Score: n/a'')) \<and>
   overall_feedback (parse_evaluation ''The candidate did well.\<newline>Score: n/a'') =
     ''The candidate did well.\<newline>Score: n/a'' \<and>
   score (parse_evaluation ''The candidate did well.\<newline>Score: n/a'') = 0"
proof -
  have h: "strengths (parse_evaluation ''The candidate did well.\<newline>Score: n/a'') = [] \<and>
   weaknesses (parse_evaluation ''The candidate did well.\<newline>Score: n/a'') = [] \<and>
   (\<forall>l \<in> set (split_lines (strip ''The candidate did well.\<newline>Score: n/a'')).
        contains ''SCORE:'' (upper (strip l)) \<longrightarrow> (\<forall>c \<in> set (strip l). \<not> is_digit c))"
    by code_simp
  moreover have "list_all (\<lambda>l. contains ''SCORE:'' (upper (strip l)) = list_all (\<lambda>c. \<not> is_digit c) (strip l) \<or>
               \<not> contains ''SCORE:'' (upper (strip l)))
     (split_lines (strip ''The candidate did well.\<newline>Score: n/a''))"
    by code_simp
  ultimately show ?thesis
    using parse_evaluation_fallback [of "''The candidate did well.\<newline>Score: n/a''"]
    by blast
qed

text \<open>
  The claim's score of 0 fails: \<open>SCORE: 85\<close> has neither strengths nor weaknesses,
  its feedback is the raw text, and its score is 85.
\<close>

theorem fallback_keeps_score_counterexample:
  "strengths (parse_evaluation ''SCORE: 85'') = [] \<and>
   weaknesses (parse_evaluation ''SCORE: 85'') = [] \<and>
   overall_feedback (parse_evaluation ''SCORE: 85'') = ''SCORE: 85'' \<and>
   score (parse_evaluation ''SCORE: 85'') = 85"
  by code_simp

section \<open>Facts about the nodes and the graph\<close>

lemma ask_question_Inr:
  assumes "ask_question e a n calls s = Inr r"
  shows "\<exists>p q. llm_invoke e calls p = Some q \<and> r = (q, calls @ [p])"
  using assms
  by (auto simp: ask_question_def get_agent_prompt_def generate_question_def Let_def
      split: if_splits option.splits)

lemma technical_node_Inr:
  assumes "technical_node e w = Inr w'"
  shows "\<exists>p q. llm_invoke e (fst w) p = Some q \<and>
           w' = (fst w @ [p], (snd w)\<lparr>current_question := Some q,
                   conversation_history := conversation_history (snd w) @ [agent_message q Technical]\<rparr>)"
proof (cases "technical_ask_question e (fst w) (snd w)")
  case (Inl err)
  with assms show ?thesis by (simp add: technical_node_def)
next
  case (Inr r)
  then obtain p q where "llm_invoke e (fst w) p = Some q" and "r = (q, fst w @ [p])"
    unfolding technical_ask_question_def by (blast dest: ask_question_Inr)
  with assms Inr show ?thesis by (auto simp: technical_node_def)
qed


lemma hr_node_Inr:
  assumes "hr_node e w = Inr w'"
  shows "\<exists>p q. llm_invoke e (fst w) p = Some q \<and>
           w' = (fst w @ [p], (snd w)\<lparr>current_question := Some q, current_agent := HR,
                   conversation_history := conversation_history (snd w) @ [agent_message q HR]\<rparr>)"
proof (cases "hr_ask_question e (fst w) (snd w)")
  case (Inl err)
  with assms show ?thesis by (simp add: hr_node_def)
next
  case (Inr r)
  then obtain p q where "llm_invoke e (fst w) p = Some q" and "r = (q, fst w @ [p])"
    unfolding hr_ask_question_def by (blast dest: ask_question_Inr)
  with assms Inr show ?thesis by (auto simp: hr_node_def)
qed

lemma manager_node_Inr:
  assumes "manager_node e w = Inr w'"
  shows "\<exists>p q. llm_invoke e (fst w) p = Some q \<and>
           w' = (fst w @ [p], (snd w)\<lparr>current_question := Some q, current_agent := Manager,
                   conversation_history := conversation_history (snd w) @ [agent_message q Manager]\<rparr>)"
proof (cases "manager_ask_question e (fst w) (snd w)")
  case (Inl err)
  with assms show ?thesis by (simp add: manager_node_def)
next
  case (Inr r)
  then obtain p q where "llm_invoke e (fst w) p = Some q" and "r = (q, fst w @ [p])"
    unfolding manager_ask_question_def by (blast dest: ask_question_Inr)
  with assms Inr show ?thesis by (auto simp: manager_node_def)
qed

lemma evaluation_node_Inr:
  assumes "evaluation_node e w = Inr w'"
  shows "\<exists>r. llm_invoke e (fst w) (evaluation_prompt e (snd w)) = Some r \<and>
           w' = (fst w @ [evaluation_prompt e (snd w)],
                 (snd w)\<lparr>evaluation := Some (parse_evaluation r), is_complete := True,
                   current_agent := Evaluation\<rparr>)"
proof (cases "llm_invoke e (fst w) (evaluation_prompt e (snd w))")
  case None
  with assms show ?thesis
    by (simp add: evaluation_node_def generate_evaluation_def evaluation_prompt_def)
next
  case (Some r)
  with assms show ?thesis
    by (auto simp: evaluation_node_def generate_evaluation_def evaluation_prompt_def)
qed

lemma run_node_same_answers: "run_node e n w = Inr w' \<Longrightarrow> same_answers w w'"
proof (cases n)
  case Technical_node
  assume "run_node e n w = Inr w'"
  with Technical_node have "technical_node e w = Inr w'" by (simp add: run_node_def)
  from technical_node_Inr [OF this] show ?thesis by (auto simp: same_answers_def)
next
  case Hr_node
  assume "run_node e n w = Inr w'"
  with Hr_node have "hr_node e w = Inr w'" by (simp add: run_node_def)
  from hr_node_Inr [OF this] show ?thesis by (auto simp: same_answers_def)
next
  case Manager_node
  assume "run_node e n w = Inr w'"
  with Manager_node have "manager_node e w = Inr w'" by (simp add: run_node_def)
  from manager_node_Inr [OF this] show ?thesis by (auto simp: same_answers_def)
next
  case Evaluation_node
  assume "run_node e n w = Inr w'"
  with Evaluation_node have "evaluation_node e w = Inr w'" by (simp add: run_node_def)
  from evaluation_node_Inr [OF this] show ?thesis by (auto simp: same_answers_def)
qed


lemma graph_invoke_Suc_Inr:
  assumes "graph_invoke e (Suc k) n w = Inr w'"
  obtains w1 where "run_node e n w = Inr w1"
    and "next_node e n (snd w1) = None \<Longrightarrow> w' = w1"
    and "\<And>n'. next_node e n (snd w1) = Some n' \<Longrightarrow> graph_invoke e k n' w1 = Inr w'"
proof (cases "run_node e n w")
  case (Inl err)
  with assms show ?thesis by simp
next
  case (Inr w1)
  show ?thesis
  proof (rule that [of w1])
    show "run_node e n w = Inr w1" by (rule Inr)
    show "next_node e n (snd w1) = None \<Longrightarrow> w' = w1" using assms Inr by simp
    show "\<And>n'. next_node e n (snd w1) = Some n' \<Longrightarrow> graph_invoke e k n' w1 = Inr w'"
      using assms Inr by simp
  qed
qed

lemma same_answers_trans: "same_answers a b \<Longrightarrow> same_answers b c \<Longrightarrow> same_answers a c"
  by (simp add: same_answers_def)


lemma graph_invoke_same_answers: "graph_invoke e k n w = Inr w' \<Longrightarrow> same_answers w w'"
proof (induction k arbitrary: n w)
  case 0
  then show ?case by simp
next
  case (Suc k)
  from Suc.prems show ?case
  proof (rule graph_invoke_Suc_Inr)
    fix w1
    assume w1: "run_node e n w = Inr w1"
      and stop: "next_node e n (snd w1) = None \<Longrightarrow> w' = w1"
      and go: "\<And>n'. next_node e n (snd w1) = Some n' \<Longrightarrow> graph_invoke e k n' w1 = Inr w'"
    from w1 have a: "same_answers w w1" by (rule run_node_same_answers)
    show ?thesis
    proof (cases "next_node e n (snd w1)")
      case None
      with stop a show ?thesis by simp
    next
      case (Some n')
      with go have "graph_invoke e k n' w1 = Inr w'" by simp
      then have "same_answers w1 w'" by (rule Suc.IH)
      with a show ?thesis by (rule same_answers_trans)
    qed
  qed
qed




















lemma process_answer_cases:
  assumes "process_answer s a = Inr s'"
  shows "(\<not> truthy (current_question s) \<and>
          s' = s\<lparr>conversation_history := conversation_history s @ [user_message a],
                 current_question := None, last_answer := Some a\<rparr>) \<or>
         (\<exists>q. current_question s = Some q \<and> q \<noteq> [] \<and>
            (current_agent s = Technical \<or> current_agent s = HR \<or> current_agent s = Manager) \<and>
            s' = (increment_counter
                   (s\<lparr>conversation_history := conversation_history s @ [user_message a],
                      qa_pairs := qa_pairs s @
                        [\<lparr>question = q, answer = Some a, qa_agent_type = current_agent s\<rparr>]\<rparr>))
                 \<lparr>current_question := None, last_answer := Some a\<rparr>)"
proof (cases "truthy (current_question s)")
  case False
  with assms show ?thesis by (auto simp: process_answer_def Let_def)
next
  case True
  then obtain q where q: "current_question s = Some q" "q \<noteq> []"
    by (auto simp: truthy_def split: option.splits)
  with assms show ?thesis
    by (auto simp: process_answer_def Let_def truthy_def QuestionAnswer_def split: if_splits)
qed

lemma process_answer_counted:
  assumes "process_answer s a = Inr s'" and "counted s"
  shows "counted s'"
  using process_answer_cases [OF assms(1)] assms(2)
  by (auto simp: counted_def increment_counter_def)

lemma run_step_counted:
  assumes "run_step e w = Inr w'" and "counted (snd w)"
  shows "counted (snd w')"
proof -
  from assms(1) have "same_answers w w'"
    unfolding run_step_def by (rule graph_invoke_same_answers)
  with assms(2) show ?thesis by (simp add: same_answers_def counted_def)
qed

lemma reachable_counted: "reachable e w \<Longrightarrow> counted (snd w)"
proof (induction rule: reachable.induct)
  case (initial name job level resume)
  show ?case by (simp add: counted_def create_initial_state_def)
next
  case (step w w')
  then show ?case by (blast intro: run_step_counted)
next
  case (answer calls s a s')
  then show ?case by (auto intro: process_answer_counted)
qed

section \<open>The answers and the counters\<close>

text \<open>
  Claim C2. In every state reached from \<open>create_initial_state\<close> by calls of
  \<open>run_step\<close> and \<open>process_answer\<close>, the latter only while \<open>current_question\<close> is
  not \<open>None\<close>, the number of question-answer pairs is the sum of the three counters.
\<close>

theorem qa_pairs_count:
  assumes "reachable e (calls, s)"
  shows "int (length (qa_pairs s)) =
           technical_questions_asked s + hr_questions_asked s + manager_questions_asked s"
  using reachable_counted [OF assms] by (simp add: counted_def)

lemma demo_first_step: "run_step (demo_env 1 1 1) ([], demo_state) = Inr demo_asked"
  by code_simp

lemma demo_first_answer: "process_answer (snd demo_asked) ''x'' = Inr (snd demo_answered)"
  by code_simp



lemma reachable_demo_asked: "reachable (demo_env 1 1 1) demo_asked"
  using reachable.step [OF reachable.initial demo_first_step [unfolded demo_state_def]] .

lemma reachable_demo_answered: "reachable (demo_env 1 1 1) demo_answered"
proof -
  have "reachable (demo_env 1 1 1) (fst demo_asked, snd demo_asked)"
    using reachable_demo_asked by simp
  moreover have "current_question (snd demo_asked) \<noteq> None" by (simp add: demo_asked_def)
  ultimately have "reachable (demo_env 1 1 1) (fst demo_asked, snd demo_answered)"
    using demo_first_answer by (rule reachable.answer)
  then show ?thesis by (simp add: demo_asked_def demo_answered_def)
qed

theorem qa_pairs_count_witness:
  "reachable (demo_env 1 1 1) demo_answered \<and>
   int (length (qa_pairs (snd demo_answered))) =
     technical_questions_asked (snd demo_answered) + hr_questions_asked (snd demo_answered)
       + manager_questions_asked (snd demo_answered) \<and>
   length (qa_pairs (snd demo_answered)) = 1"
proof -
  have "reachable (demo_env 1 1 1) (fst demo_answered, snd demo_answered)"
    using reachable_demo_answered by simp
  from this qa_pairs_count [OF this] show ?thesis
    by (simp add: demo_answered_def)
qed


section \<open>Answers\<close>






section \<open>The resume in the prompt\<close>



section \<open>Steps\<close>




























section \<open>The order of the rounds\<close>











end
